theory Spec2Isabelle
  imports Main
begin

section \<open>The translation unit as the preprocessor sees it\<close>

text \<open>
  The header \<^verbatim>\<open>systest/include/git2-systest-win32.h\<close> runs only at compile time. What
  it reads and writes is the state of the translation unit being compiled: the set of macro
  names that are currently defined (the header only ever asks \<^verbatim>\<open>defined\<close> and
  \<^verbatim>\<open>#ifndef\<close>, and only defines macros without a replacement text), and the type
  aliases declared so far, in the order of their declaration.
\<close>

datatype c_type = Unsigned_Short | Unsigned_Int | Signed_Int

type_synonym typedef_decl = "string \<times> c_type"

record tu_state =
  macros :: "string set"
  decls :: "typedef_decl list"

text \<open>The three macro names of the header and the one alias it declares.\<close>

definition GIT2_SYS_TEST_WIN32_COMPAT_H :: string where
  "GIT2_SYS_TEST_WIN32_COMPAT_H = ''GIT2_SYS_TEST_WIN32_COMPAT_H''"

definition MSC_VER :: string where
  "MSC_VER = ''_MSC_VER''"

definition MODE_T_DEFINED :: string where
  "MODE_T_DEFINED = ''_MODE_T_DEFINED''"

definition mode_t :: string where
  "mode_t = ''mode_t''"

text \<open>\<^verbatim>\<open>defined(M)\<close>, \<^verbatim>\<open>#define M\<close> and \<^verbatim>\<open>typedef T name;\<close>.\<close>

definition pp_defined :: "string \<Rightarrow> tu_state \<Rightarrow> bool" where
  "pp_defined m s = (m \<in> macros s)"

definition pp_define :: "string \<Rightarrow> tu_state \<Rightarrow> tu_state" where
  "pp_define m s = s\<lparr>macros := insert m (macros s)\<rparr>"

definition c_typedef :: "c_type \<Rightarrow> string \<Rightarrow> tu_state \<Rightarrow> tu_state" where
  "c_typedef t name s = s\<lparr>decls := decls s @ [(name, t)]\<rparr>"

section \<open>The header\<close>

text \<open>
  One textual inclusion of the header, directive by directive:
  \<^verbatim>\<open>
  #ifndef GIT2_SYS_TEST_WIN32_COMPAT_H
  #define GIT2_SYS_TEST_WIN32_COMPAT_H

  #if defined(_MSC_VER) && !defined(_MODE_T_DEFINED)
  typedef unsigned short mode_t;
  #define _MODE_T_DEFINED
  #endif

  #endif
  \<close>
  The inner condition is evaluated in the state that the \<^verbatim>\<open>#define\<close> of the guard
  has left.
\<close>

definition git2_systest_win32_h :: "tu_state \<Rightarrow> tu_state" where
  "git2_systest_win32_h s =
     (if \<not> pp_defined GIT2_SYS_TEST_WIN32_COMPAT_H s then
        let s1 = pp_define GIT2_SYS_TEST_WIN32_COMPAT_H s in
        if pp_defined MSC_VER s1 \<and> \<not> pp_defined MODE_T_DEFINED s1 then
          pp_define MODE_T_DEFINED (c_typedef Unsigned_Short mode_t s1)
        else s1
      else s)"

section \<open>Observations on a translation unit\<close>

text \<open>The declarations of one alias name, and what the name resolves to.\<close>

definition declarations_of :: "string \<Rightarrow> tu_state \<Rightarrow> typedef_decl list" where
  "declarations_of name s = filter (\<lambda>d. fst d = name) (decls s)"

definition resolve :: "tu_state \<Rightarrow> string \<Rightarrow> c_type option" where
  "resolve s name = map_of (decls s) name"

text \<open>
  Modelled from the spec: the compiler's check of declarations is not part of the header.
  Section 7 names the one failure there is, a redefinition diagnostic when the same alias is
  declared again; it is taken here in its strictest form, a second declaration of a name
  whatever its type.
\<close>

definition redefinition_diagnostic :: "string \<Rightarrow> tu_state \<Rightarrow> bool" where
  "redefinition_diagnostic name s = (1 < length (declarations_of name s))"

text \<open>
  Modelled from the spec: the integer types of the targeted compiler family are built into
  the compiler and not declared in the header. Section 3 gives \<^verbatim>\<open>unsigned short\<close>
  as an unsigned integer of 16 bits; the two \<^verbatim>\<open>int\<close> types only stand for aliases
  that other parts of a translation unit may have declared.
\<close>

fun type_width :: "c_type \<Rightarrow> nat" where
  "type_width Unsigned_Short = 16"
| "type_width Unsigned_Int = 32"
| "type_width Signed_Int = 32"

fun type_unsigned :: "c_type \<Rightarrow> bool" where
  "type_unsigned Unsigned_Short = True"
| "type_unsigned Unsigned_Int = True"
| "type_unsigned Signed_Int = False"

text \<open>
  What a stretch of compilation has contributed between the states \<open>s\<close> (before) and
  \<open>s'\<close> (after): the declarations made and the macros set.
\<close>

definition declarations_made :: "tu_state \<Rightarrow> tu_state \<Rightarrow> typedef_decl list" where
  "declarations_made s s' = drop (length (decls s)) (decls s')"

definition flags_set :: "tu_state \<Rightarrow> tu_state \<Rightarrow> string set" where
  "flags_set s s' = macros s' - macros s"

section \<open>Some translation units\<close>

text \<open>
  Four starting points of a compilation: the targeted compiler with nothing included yet;
  the same with the include guard defined from outside (say on the command line); the
  targeted compiler after a translation unit has declared its own \<^verbatim>\<open>mode_t\<close> and set
  the feature flag; and another compiler, whose own headers have declared
  \<^verbatim>\<open>mode_t\<close>.
\<close>

abbreviation msvc_tu :: tu_state where
  "msvc_tu \<equiv> \<lparr>macros = {MSC_VER}, decls = []\<rparr>"

abbreviation msvc_tu_guard_predefined :: tu_state where
  "msvc_tu_guard_predefined \<equiv>
     \<lparr>macros = {MSC_VER, GIT2_SYS_TEST_WIN32_COMPAT_H}, decls = []\<rparr>"

abbreviation msvc_tu_own_mode_t :: tu_state where
  "msvc_tu_own_mode_t \<equiv>
     \<lparr>macros = {MSC_VER, MODE_T_DEFINED}, decls = [(mode_t, Unsigned_Int)]\<rparr>"

abbreviation posix_tu :: tu_state where
  "posix_tu \<equiv> \<lparr>macros = {}, decls = [(mode_t, Unsigned_Int)]\<rparr>"

section \<open>Basic facts\<close>

lemma macro_names_distinct:
  "GIT2_SYS_TEST_WIN32_COMPAT_H \<noteq> MSC_VER"
  "GIT2_SYS_TEST_WIN32_COMPAT_H \<noteq> MODE_T_DEFINED"
  "MSC_VER \<noteq> MODE_T_DEFINED"
  "MSC_VER \<noteq> GIT2_SYS_TEST_WIN32_COMPAT_H"
  "MODE_T_DEFINED \<noteq> GIT2_SYS_TEST_WIN32_COMPAT_H"
  "MODE_T_DEFINED \<noteq> MSC_VER"
  by (simp_all add: GIT2_SYS_TEST_WIN32_COMPAT_H_def MSC_VER_def MODE_T_DEFINED_def)

text \<open>The three outcomes of one inclusion, one per path through the directives.\<close>

lemma header_guard_closed:
  "pp_defined GIT2_SYS_TEST_WIN32_COMPAT_H s \<Longrightarrow> git2_systest_win32_h s = s"
  by (simp add: git2_systest_win32_h_def)

lemma header_declares:
  assumes "\<not> pp_defined GIT2_SYS_TEST_WIN32_COMPAT_H s"
    and "pp_defined MSC_VER s" and "\<not> pp_defined MODE_T_DEFINED s"
  shows "git2_systest_win32_h s =
    s\<lparr>macros := insert MODE_T_DEFINED (insert GIT2_SYS_TEST_WIN32_COMPAT_H (macros s)),
      decls := decls s @ [(mode_t, Unsigned_Short)]\<rparr>"
  using assms
  by (simp add: git2_systest_win32_h_def pp_defined_def pp_define_def c_typedef_def
      macro_names_distinct Let_def)

lemma header_skips:
  assumes "\<not> pp_defined GIT2_SYS_TEST_WIN32_COMPAT_H s"
    and "\<not> pp_defined MSC_VER s \<or> pp_defined MODE_T_DEFINED s"
  shows "git2_systest_win32_h s =
    s\<lparr>macros := insert GIT2_SYS_TEST_WIN32_COMPAT_H (macros s)\<rparr>"
  using assms
  by (auto simp add: git2_systest_win32_h_def pp_defined_def pp_define_def c_typedef_def
      macro_names_distinct Let_def)

lemma header_defines_guard:
  "pp_defined GIT2_SYS_TEST_WIN32_COMPAT_H (git2_systest_win32_h s)"
  by (simp add: git2_systest_win32_h_def pp_defined_def pp_define_def c_typedef_def Let_def)

lemma header_cases [case_names closed declares skips]:
  obtains "pp_defined GIT2_SYS_TEST_WIN32_COMPAT_H s" "git2_systest_win32_h s = s"
  | "\<not> pp_defined GIT2_SYS_TEST_WIN32_COMPAT_H s" "pp_defined MSC_VER s"
      "\<not> pp_defined MODE_T_DEFINED s"
      "git2_systest_win32_h s =
        s\<lparr>macros := insert MODE_T_DEFINED (insert GIT2_SYS_TEST_WIN32_COMPAT_H (macros s)),
          decls := decls s @ [(mode_t, Unsigned_Short)]\<rparr>"
  | "\<not> pp_defined GIT2_SYS_TEST_WIN32_COMPAT_H s"
      "\<not> pp_defined MSC_VER s \<or> pp_defined MODE_T_DEFINED s"
      "git2_systest_win32_h s = s\<lparr>macros := insert GIT2_SYS_TEST_WIN32_COMPAT_H (macros s)\<rparr>"
  using header_guard_closed [of s] header_declares [of s] header_skips [of s] by blast

text \<open>What one inclusion contributes, as a function of the three macros it tests.\<close>

lemma header_declarations_made:
  "declarations_made s (git2_systest_win32_h s) =
     (if \<not> pp_defined GIT2_SYS_TEST_WIN32_COMPAT_H s \<and> pp_defined MSC_VER s
         \<and> \<not> pp_defined MODE_T_DEFINED s
      then [(mode_t, Unsigned_Short)] else [])"
  by (cases s rule: header_cases) (auto simp add: declarations_made_def)

lemma header_decls:
  "decls (git2_systest_win32_h s) = decls s @ declarations_made s (git2_systest_win32_h s)"
  by (cases s rule: header_cases) (simp_all add: declarations_made_def)

lemma header_flags_set:
  "flags_set s (git2_systest_win32_h s) =
     (if pp_defined GIT2_SYS_TEST_WIN32_COMPAT_H s then {}
      else if pp_defined MSC_VER s \<and> \<not> pp_defined MODE_T_DEFINED s
      then {GIT2_SYS_TEST_WIN32_COMPAT_H, MODE_T_DEFINED}
      else {GIT2_SYS_TEST_WIN32_COMPAT_H})"
  by (cases s rule: header_cases) (auto simp add: flags_set_def pp_defined_def)

lemma header_macros:
  "macros (git2_systest_win32_h s) = macros s \<union> flags_set s (git2_systest_win32_h s)"
  by (cases s rule: header_cases) (auto simp add: flags_set_def)

text \<open>Any positive number of inclusions in sequence is one inclusion.\<close>

lemma header_idempotent:
  "git2_systest_win32_h (git2_systest_win32_h s) = git2_systest_win32_h s"
  by (rule header_guard_closed) (rule header_defines_guard)

lemma header_repeated:
  "(git2_systest_win32_h ^^ Suc n) s = git2_systest_win32_h s"
  by (induction n) (simp_all add: header_idempotent)

lemma header_funpow:
  "(git2_systest_win32_h ^^ n) s = (if n = 0 then s else git2_systest_win32_h s)"
  by (cases n) (simp_all add: header_repeated del: funpow.simps(2))

text \<open>Evaluating the example translation units.\<close>

lemma msvc_tu_conditions:
  "pp_defined MSC_VER msvc_tu" "\<not> pp_defined MODE_T_DEFINED msvc_tu"
  "\<not> pp_defined GIT2_SYS_TEST_WIN32_COMPAT_H msvc_tu" "declarations_of mode_t msvc_tu = []"
  by (simp_all add: pp_defined_def declarations_of_def macro_names_distinct)

lemma msvc_tu_guard_predefined_conditions:
  "pp_defined MSC_VER msvc_tu_guard_predefined"
  "\<not> pp_defined MODE_T_DEFINED msvc_tu_guard_predefined"
  "pp_defined GIT2_SYS_TEST_WIN32_COMPAT_H msvc_tu_guard_predefined"
  by (simp_all add: pp_defined_def macro_names_distinct)

lemma msvc_tu_own_mode_t_conditions:
  "pp_defined MSC_VER msvc_tu_own_mode_t" "pp_defined MODE_T_DEFINED msvc_tu_own_mode_t"
  "\<not> pp_defined GIT2_SYS_TEST_WIN32_COMPAT_H msvc_tu_own_mode_t"
  by (simp_all add: pp_defined_def macro_names_distinct)

lemma posix_tu_conditions:
  "\<not> pp_defined MSC_VER posix_tu" "\<not> pp_defined MODE_T_DEFINED posix_tu"
  "\<not> pp_defined GIT2_SYS_TEST_WIN32_COMPAT_H posix_tu"
  by (simp_all add: pp_defined_def)

section \<open>The claims of the specification\<close>

subsection \<open>C1: what a first inclusion under the targeted compiler does\<close>

text \<open>
  C1. In a translation unit compiled under the targeted compiler (\<^verbatim>\<open>_MSC_VER\<close>
  defined) in which \<^verbatim>\<open>_MODE_T_DEFINED\<close> is not yet set, a first inclusion of the
  header (its include guard not yet defined) declares the alias \<^verbatim>\<open>mode_t\<close> as
  \<^verbatim>\<open>unsigned short\<close>, an unsigned integer type of 16 bits, and sets the feature flag
  \<^verbatim>\<open>_MODE_T_DEFINED\<close>.
\<close>

theorem first_inclusion_declares_mode_t:
  assumes "pp_defined MSC_VER s" and "\<not> pp_defined MODE_T_DEFINED s"
    and "\<not> pp_defined GIT2_SYS_TEST_WIN32_COMPAT_H s"
  shows "decls (git2_systest_win32_h s) = decls s @ [(mode_t, Unsigned_Short)]
    \<and> type_unsigned Unsigned_Short \<and> type_width Unsigned_Short = 16
    \<and> pp_defined MODE_T_DEFINED (git2_systest_win32_h s)"
  using assms by (simp add: header_declares pp_defined_def)

theorem first_inclusion_declares_mode_t_witness:
  "pp_defined MSC_VER msvc_tu \<and> \<not> pp_defined MODE_T_DEFINED msvc_tu
   \<and> \<not> pp_defined GIT2_SYS_TEST_WIN32_COMPAT_H msvc_tu
   \<and> decls (git2_systest_win32_h msvc_tu) = decls msvc_tu @ [(mode_t, Unsigned_Short)]
   \<and> type_unsigned Unsigned_Short \<and> type_width Unsigned_Short = 16
   \<and> pp_defined MODE_T_DEFINED (git2_systest_win32_h msvc_tu)"
  using msvc_tu_conditions(1-3)
    first_inclusion_declares_mode_t [OF msvc_tu_conditions(1-3)]
  by blast

subsection \<open>C2: inclusion is idempotent\<close>

text \<open>
  C2. Whatever the translation unit and however many times the header is included, the
  inclusions together declare \<^verbatim>\<open>mode_t\<close> at most once: the declarations made by
  \<open>n\<close> inclusions in sequence are at most one; one or more inclusions leave the state
  that a single inclusion leaves; and inclusions that come later in the unit, directly or
  through other headers, in a state \<open>s'\<close> where the guard is as the first inclusion left
  it, declare nothing. In particular, under the targeted compiler with no prior definition
  (feature flag unset, no declaration of \<^verbatim>\<open>mode_t\<close> so far), including the header
  twice in sequence raises no redefinition diagnostic, and in a unit that had not processed
  the header before, \<^verbatim>\<open>mode_t\<close> is then declared exactly once.
\<close>

theorem inclusion_declares_at_most_once:
  "length (declarations_made s ((git2_systest_win32_h ^^ n) s)) \<le> 1
   \<and> (git2_systest_win32_h ^^ Suc n) s = git2_systest_win32_h s
   \<and> (pp_defined GIT2_SYS_TEST_WIN32_COMPAT_H s'
         = pp_defined GIT2_SYS_TEST_WIN32_COMPAT_H (git2_systest_win32_h s)
        \<longrightarrow> declarations_made s' ((git2_systest_win32_h ^^ m) s') = [])
   \<and> (pp_defined MSC_VER s \<and> \<not> pp_defined MODE_T_DEFINED s \<and> declarations_of mode_t s = []
        \<longrightarrow> \<not> redefinition_diagnostic mode_t (git2_systest_win32_h (git2_systest_win32_h s))
          \<and> (\<not> pp_defined GIT2_SYS_TEST_WIN32_COMPAT_H s \<longrightarrow>
              declarations_of mode_t (git2_systest_win32_h (git2_systest_win32_h s))
                = [(mode_t, Unsigned_Short)]))"
proof (intro conjI impI)
  show "length (declarations_made s ((git2_systest_win32_h ^^ n) s)) \<le> 1"
    by (simp add: header_funpow header_declarations_made) (simp add: declarations_made_def)
  show "(git2_systest_win32_h ^^ Suc n) s = git2_systest_win32_h s"
    by (rule header_repeated)
next
  assume "pp_defined GIT2_SYS_TEST_WIN32_COMPAT_H s'
    = pp_defined GIT2_SYS_TEST_WIN32_COMPAT_H (git2_systest_win32_h s)"
  then have "pp_defined GIT2_SYS_TEST_WIN32_COMPAT_H s'"
    by (simp add: header_defines_guard)
  then show "declarations_made s' ((git2_systest_win32_h ^^ m) s') = []"
    by (simp add: header_funpow header_guard_closed declarations_made_def)
next
  assume fresh: "pp_defined MSC_VER s \<and> \<not> pp_defined MODE_T_DEFINED s
    \<and> declarations_of mode_t s = []"
  then show "\<not> redefinition_diagnostic mode_t (git2_systest_win32_h (git2_systest_win32_h s))"
    by (simp add: header_idempotent redefinition_diagnostic_def declarations_of_def
        header_decls [of s] header_declarations_made)
  assume "\<not> pp_defined GIT2_SYS_TEST_WIN32_COMPAT_H s"
  with fresh show "declarations_of mode_t (git2_systest_win32_h (git2_systest_win32_h s))
      = [(mode_t, Unsigned_Short)]"
    by (simp add: header_idempotent declarations_of_def
        header_decls [of s] header_declarations_made)
qed

text \<open>
  The witness: two inclusions in sequence in \<open>msvc_tu\<close>, and three more later in the same
  unit, after other text has declared a further alias.
\<close>

theorem inclusion_declares_at_most_once_witness:
  "pp_defined MSC_VER msvc_tu \<and> \<not> pp_defined MODE_T_DEFINED msvc_tu
   \<and> declarations_of mode_t msvc_tu = [] \<and> \<not> pp_defined GIT2_SYS_TEST_WIN32_COMPAT_H msvc_tu
   \<and> length (declarations_made msvc_tu ((git2_systest_win32_h ^^ 2) msvc_tu)) \<le> 1
   \<and> \<not> redefinition_diagnostic mode_t (git2_systest_win32_h (git2_systest_win32_h msvc_tu))
   \<and> declarations_of mode_t (git2_systest_win32_h (git2_systest_win32_h msvc_tu))
       = [(mode_t, Unsigned_Short)]
   \<and> pp_defined GIT2_SYS_TEST_WIN32_COMPAT_H
        \<lparr>macros = {MSC_VER, GIT2_SYS_TEST_WIN32_COMPAT_H, MODE_T_DEFINED},
          decls = [(mode_t, Unsigned_Short), (''uid_t'', Unsigned_Int)]\<rparr>
       = pp_defined GIT2_SYS_TEST_WIN32_COMPAT_H (git2_systest_win32_h msvc_tu)
   \<and> declarations_made
        \<lparr>macros = {MSC_VER, GIT2_SYS_TEST_WIN32_COMPAT_H, MODE_T_DEFINED},
          decls = [(mode_t, Unsigned_Short), (''uid_t'', Unsigned_Int)]\<rparr>
        ((git2_systest_win32_h ^^ 3)
          \<lparr>macros = {MSC_VER, GIT2_SYS_TEST_WIN32_COMPAT_H, MODE_T_DEFINED},
            decls = [(mode_t, Unsigned_Short), (''uid_t'', Unsigned_Int)]\<rparr>) = []"
proof -
  have later: "pp_defined GIT2_SYS_TEST_WIN32_COMPAT_H
        \<lparr>macros = {MSC_VER, GIT2_SYS_TEST_WIN32_COMPAT_H, MODE_T_DEFINED},
          decls = [(mode_t, Unsigned_Short), (''uid_t'', Unsigned_Int)]\<rparr>
       = pp_defined GIT2_SYS_TEST_WIN32_COMPAT_H (git2_systest_win32_h msvc_tu)"
    by (simp add: header_defines_guard) (simp add: pp_defined_def)
  from later msvc_tu_conditions
    inclusion_declares_at_most_once [of msvc_tu 2
      "\<lparr>macros = {MSC_VER, GIT2_SYS_TEST_WIN32_COMPAT_H, MODE_T_DEFINED},
        decls = [(mode_t, Unsigned_Short), (''uid_t'', Unsigned_Int)]\<rparr>" 3]
  show ?thesis by blast
qed

subsection \<open>C3: other compilers\<close>

text \<open>
  C3. In a translation unit compiled under any other compiler (\<^verbatim>\<open>_MSC_VER\<close> not
  defined), including the header produces no declaration and has no effect on the
  compilation: the declarations are those from before, so no symbol is introduced; no alias
  name gains or loses a redefinition diagnostic; and no macro other than the header's own
  include guard, which is not a declaration, is defined or undefined.
\<close>

theorem other_compiler_no_declarations:
  assumes "\<not> pp_defined MSC_VER s"
  shows "declarations_made s (git2_systest_win32_h s) = []
    \<and> decls (git2_systest_win32_h s) = decls s
    \<and> redefinition_diagnostic name (git2_systest_win32_h s) = redefinition_diagnostic name s
    \<and> macros (git2_systest_win32_h s) - {GIT2_SYS_TEST_WIN32_COMPAT_H}
        = macros s - {GIT2_SYS_TEST_WIN32_COMPAT_H}"
  using assms
  by (auto simp add: header_decls [of s] header_declarations_made header_macros [of s]
      header_flags_set redefinition_diagnostic_def declarations_of_def)

theorem other_compiler_no_declarations_witness:
  "\<not> pp_defined MSC_VER posix_tu
   \<and> declarations_made posix_tu (git2_systest_win32_h posix_tu) = []
   \<and> decls (git2_systest_win32_h posix_tu) = decls posix_tu
   \<and> redefinition_diagnostic mode_t (git2_systest_win32_h posix_tu)
       = redefinition_diagnostic mode_t posix_tu
   \<and> macros (git2_systest_win32_h posix_tu) - {GIT2_SYS_TEST_WIN32_COMPAT_H}
       = macros posix_tu - {GIT2_SYS_TEST_WIN32_COMPAT_H}"
  using posix_tu_conditions(1)
    other_compiler_no_declarations [OF posix_tu_conditions(1), of mode_t]
  by blast

subsection \<open>C4: the feature flag already set\<close>

text \<open>
  C4. In a translation unit in which \<^verbatim>\<open>_MODE_T_DEFINED\<close> is already set before the
  inclusion (by platform headers, or by the unit's own definition of \<^verbatim>\<open>mode_t\<close>),
  including the header declares nothing and does not conflict: the declarations of the unit
  are unchanged, so the declarations of \<^verbatim>\<open>mode_t\<close> it had are still all there are, and no
  redefinition diagnostic appears or disappears.
\<close>

theorem flag_set_no_declaration:
  assumes "pp_defined MODE_T_DEFINED s"
  shows "declarations_made s (git2_systest_win32_h s) = []
    \<and> decls (git2_systest_win32_h s) = decls s
    \<and> declarations_of mode_t (git2_systest_win32_h s) = declarations_of mode_t s
    \<and> redefinition_diagnostic name (git2_systest_win32_h s) = redefinition_diagnostic name s"
  using assms
  by (simp add: header_decls [of s] header_declarations_made
      redefinition_diagnostic_def declarations_of_def)

theorem flag_set_no_declaration_witness:
  "pp_defined MODE_T_DEFINED msvc_tu_own_mode_t
   \<and> declarations_made msvc_tu_own_mode_t (git2_systest_win32_h msvc_tu_own_mode_t) = []
   \<and> decls (git2_systest_win32_h msvc_tu_own_mode_t) = decls msvc_tu_own_mode_t
   \<and> declarations_of mode_t (git2_systest_win32_h msvc_tu_own_mode_t)
       = declarations_of mode_t msvc_tu_own_mode_t
   \<and> redefinition_diagnostic mode_t (git2_systest_win32_h msvc_tu_own_mode_t)
       = redefinition_diagnostic mode_t msvc_tu_own_mode_t"
  using msvc_tu_own_mode_t_conditions(2)
    flag_set_no_declaration [OF msvc_tu_own_mode_t_conditions(2), of mode_t]
  by blast

subsection \<open>C5: the alias is never declared without the flag\<close>

text \<open>
  C5. Whenever an inclusion of the header declares the alias (it adds a declaration to the
  translation unit), the same inclusion sets \<^verbatim>\<open>_MODE_T_DEFINED\<close>: the flag is among the
  macros this inclusion has set, and is defined afterwards.
\<close>

theorem declaring_sets_flag:
  assumes "declarations_made s (git2_systest_win32_h s) \<noteq> []"
  shows "MODE_T_DEFINED \<in> flags_set s (git2_systest_win32_h s)
    \<and> pp_defined MODE_T_DEFINED (git2_systest_win32_h s)"
  using assms
  by (auto simp add: header_declarations_made header_macros [of s] header_flags_set
      pp_defined_def split: if_splits)

theorem declaring_sets_flag_witness:
  "declarations_made msvc_tu (git2_systest_win32_h msvc_tu) \<noteq> []
   \<and> MODE_T_DEFINED \<in> flags_set msvc_tu (git2_systest_win32_h msvc_tu)
   \<and> pp_defined MODE_T_DEFINED (git2_systest_win32_h msvc_tu)"
proof -
  have made: "declarations_made msvc_tu (git2_systest_win32_h msvc_tu) \<noteq> []"
    by (simp add: header_declarations_made msvc_tu_conditions)
  from made declaring_sets_flag [OF made] show ?thesis by blast
qed

subsection \<open>C6: the declared type\<close>

text \<open>
  C6. Under the targeted compiler, with the alias not already defined (feature flag unset
  and no declaration of \<^verbatim>\<open>mode_t\<close> so far), compilation succeeds, as no redefinition
  diagnostic arises; every type that \<^verbatim>\<open>mode_t\<close> is declared as after the inclusion is
  \<^verbatim>\<open>unsigned short\<close>, an unsigned integer type of exactly 16 bits; and when the header
  is processed (its include guard not yet defined), \<^verbatim>\<open>mode_t\<close> does resolve to that
  type.
\<close>

theorem mode_t_is_unsigned_16_bit:
  assumes "pp_defined MSC_VER s" and "\<not> pp_defined MODE_T_DEFINED s"
    and "declarations_of mode_t s = []"
  shows "\<not> redefinition_diagnostic mode_t (git2_systest_win32_h s)
    \<and> (\<forall>t. (mode_t, t) \<in> set (decls (git2_systest_win32_h s)) \<longrightarrow>
          t = Unsigned_Short \<and> type_unsigned t \<and> type_width t = 16)
    \<and> (\<not> pp_defined GIT2_SYS_TEST_WIN32_COMPAT_H s \<longrightarrow>
          resolve (git2_systest_win32_h s) mode_t = Some Unsigned_Short)"
proof -
  from assms(3) have undeclared: "\<And>t. (mode_t, t) \<notin> set (decls s)"
    by (auto simp add: declarations_of_def filter_empty_conv)
  then have "map_of (decls s) mode_t = None"
    by (simp add: map_of_eq_None_iff image_iff) force
  with undeclared assms show ?thesis
    by (simp add: header_decls [of s] header_declarations_made
        redefinition_diagnostic_def declarations_of_def resolve_def map_add_def)
qed

theorem mode_t_is_unsigned_16_bit_witness:
  "pp_defined MSC_VER msvc_tu \<and> \<not> pp_defined MODE_T_DEFINED msvc_tu
   \<and> declarations_of mode_t msvc_tu = [] \<and> \<not> pp_defined GIT2_SYS_TEST_WIN32_COMPAT_H msvc_tu
   \<and> \<not> redefinition_diagnostic mode_t (git2_systest_win32_h msvc_tu)
   \<and> resolve (git2_systest_win32_h msvc_tu) mode_t = Some Unsigned_Short
   \<and> type_unsigned Unsigned_Short \<and> type_width Unsigned_Short = 16"
proof -
  have "(mode_t, Unsigned_Short) \<in> set (decls (git2_systest_win32_h msvc_tu))"
    by (simp add: header_declares msvc_tu_conditions)
  with msvc_tu_conditions
    mode_t_is_unsigned_16_bit [OF msvc_tu_conditions(1) msvc_tu_conditions(2)
      msvc_tu_conditions(4)]
  show ?thesis by blast
qed

subsection \<open>C7: what determines the effect of the header\<close>

text \<open>
  C7 as stated makes the effect of the header a function of the two ambient conditions
  alone. The include guard is a third input. Two compilations under the targeted compiler,
  both with \<^verbatim>\<open>_MODE_T_DEFINED\<close> unset, present identical values of the two conditions;
  in the one the header declares \<^verbatim>\<open>mode_t\<close> and sets two macros, in the other, where
  \<^verbatim>\<open>GIT2_SYS_TEST_WIN32_COMPAT_H\<close> was defined beforehand, it declares nothing and sets
  none.
\<close>

theorem two_conditions_do_not_determine_effect:
  "pp_defined MSC_VER msvc_tu = pp_defined MSC_VER msvc_tu_guard_predefined
   \<and> pp_defined MODE_T_DEFINED msvc_tu = pp_defined MODE_T_DEFINED msvc_tu_guard_predefined
   \<and> declarations_made msvc_tu (git2_systest_win32_h msvc_tu) = [(mode_t, Unsigned_Short)]
   \<and> declarations_made msvc_tu_guard_predefined
        (git2_systest_win32_h msvc_tu_guard_predefined) = []
   \<and> flags_set msvc_tu (git2_systest_win32_h msvc_tu)
        = {GIT2_SYS_TEST_WIN32_COMPAT_H, MODE_T_DEFINED}
   \<and> flags_set msvc_tu_guard_predefined
        (git2_systest_win32_h msvc_tu_guard_predefined) = {}"
  by (simp add: header_declarations_made header_flags_set msvc_tu_conditions
      msvc_tu_guard_predefined_conditions)

text \<open>
  C7, amended. The effect of the header is a deterministic function of three compile-time
  booleans: whether its include guard is already defined, the compiler-identity predicate and
  the feature flag. Two compilations that agree on the three (in particular two that have not
  processed the header yet and present identical values of the two ambient conditions) get
  identical outcomes from processing it, the same declarations made and the same macros set,
  whatever else their states hold and however many times (once or more) each includes the
  header.
\<close>

theorem effect_determined_by_guard_and_conditions:
  assumes "pp_defined GIT2_SYS_TEST_WIN32_COMPAT_H s1 = pp_defined GIT2_SYS_TEST_WIN32_COMPAT_H s2"
    and "pp_defined MSC_VER s1 = pp_defined MSC_VER s2"
    and "pp_defined MODE_T_DEFINED s1 = pp_defined MODE_T_DEFINED s2"
    and "0 < n1" and "0 < n2"
  shows "declarations_made s1 ((git2_systest_win32_h ^^ n1) s1)
      = declarations_made s2 ((git2_systest_win32_h ^^ n2) s2)
    \<and> flags_set s1 ((git2_systest_win32_h ^^ n1) s1)
      = flags_set s2 ((git2_systest_win32_h ^^ n2) s2)"
  using assms by (simp add: header_funpow header_declarations_made header_flags_set)

theorem effect_determined_by_guard_and_conditions_witness:
  "pp_defined GIT2_SYS_TEST_WIN32_COMPAT_H msvc_tu
     = pp_defined GIT2_SYS_TEST_WIN32_COMPAT_H \<lparr>macros = {MSC_VER}, decls = [(mode_t, Signed_Int)]\<rparr>
   \<and> pp_defined MSC_VER msvc_tu
     = pp_defined MSC_VER \<lparr>macros = {MSC_VER}, decls = [(mode_t, Signed_Int)]\<rparr>
   \<and> pp_defined MODE_T_DEFINED msvc_tu
     = pp_defined MODE_T_DEFINED \<lparr>macros = {MSC_VER}, decls = [(mode_t, Signed_Int)]\<rparr>
   \<and> (0::nat) < 1 \<and> (0::nat) < 3
   \<and> declarations_made msvc_tu ((git2_systest_win32_h ^^ 1) msvc_tu)
     = declarations_made \<lparr>macros = {MSC_VER}, decls = [(mode_t, Signed_Int)]\<rparr>
         ((git2_systest_win32_h ^^ 3) \<lparr>macros = {MSC_VER}, decls = [(mode_t, Signed_Int)]\<rparr>)
   \<and> flags_set msvc_tu ((git2_systest_win32_h ^^ 1) msvc_tu)
     = flags_set \<lparr>macros = {MSC_VER}, decls = [(mode_t, Signed_Int)]\<rparr>
         ((git2_systest_win32_h ^^ 3) \<lparr>macros = {MSC_VER}, decls = [(mode_t, Signed_Int)]\<rparr>)"
proof -
  have same: "pp_defined m msvc_tu
      = pp_defined m \<lparr>macros = {MSC_VER}, decls = [(mode_t, Signed_Int)]\<rparr>" for m
    by (simp add: pp_defined_def)
  have counts: "(0::nat) < 1" "(0::nat) < 3"
    by simp_all
  from same counts
    effect_determined_by_guard_and_conditions [OF same same same counts]
  show ?thesis by blast
qed

subsection \<open>C8: the include guard closes after the first processing\<close>

text \<open>
  C8. After an inclusion of the header, whatever the compiler-identity predicate and the
  state of \<^verbatim>\<open>_MODE_T_DEFINED\<close> were, the macro \<^verbatim>\<open>GIT2_SYS_TEST_WIN32_COMPAT_H\<close> is
  defined. From then on, in any later state \<open>s'\<close> of the translation unit in which the
  guard is as that inclusion left it, every further textual inclusion processes nothing and
  leaves the state exactly as it is, whatever has become of the ambient macros (and of the
  declarations) in between.
\<close>

theorem guard_closed_after_first_processing:
  "pp_defined GIT2_SYS_TEST_WIN32_COMPAT_H (git2_systest_win32_h s)
   \<and> (pp_defined GIT2_SYS_TEST_WIN32_COMPAT_H s'
         = pp_defined GIT2_SYS_TEST_WIN32_COMPAT_H (git2_systest_win32_h s)
       \<longrightarrow> (git2_systest_win32_h ^^ n) s' = s')"
  by (simp add: header_defines_guard header_funpow header_guard_closed)

text \<open>
  The witness: after the first inclusion in \<open>msvc_tu\<close> the unit undefines
  \<^verbatim>\<open>_MODE_T_DEFINED\<close> again, so that both ambient conditions ask for a declaration; two
  more inclusions still do nothing.
\<close>

theorem guard_closed_after_first_processing_witness:
  "pp_defined GIT2_SYS_TEST_WIN32_COMPAT_H (git2_systest_win32_h msvc_tu)
   \<and> pp_defined GIT2_SYS_TEST_WIN32_COMPAT_H
        \<lparr>macros = {MSC_VER, GIT2_SYS_TEST_WIN32_COMPAT_H}, decls = [(mode_t, Unsigned_Short)]\<rparr>
       = pp_defined GIT2_SYS_TEST_WIN32_COMPAT_H (git2_systest_win32_h msvc_tu)
   \<and> (git2_systest_win32_h ^^ 2)
        \<lparr>macros = {MSC_VER, GIT2_SYS_TEST_WIN32_COMPAT_H}, decls = [(mode_t, Unsigned_Short)]\<rparr>
       = \<lparr>macros = {MSC_VER, GIT2_SYS_TEST_WIN32_COMPAT_H}, decls = [(mode_t, Unsigned_Short)]\<rparr>"
proof -
  have still: "pp_defined GIT2_SYS_TEST_WIN32_COMPAT_H
        \<lparr>macros = {MSC_VER, GIT2_SYS_TEST_WIN32_COMPAT_H}, decls = [(mode_t, Unsigned_Short)]\<rparr>
       = pp_defined GIT2_SYS_TEST_WIN32_COMPAT_H (git2_systest_win32_h msvc_tu)"
    by (simp add: header_defines_guard) (simp add: pp_defined_def)
  from still guard_closed_after_first_processing [of msvc_tu
      "\<lparr>macros = {MSC_VER, GIT2_SYS_TEST_WIN32_COMPAT_H}, decls = [(mode_t, Unsigned_Short)]\<rparr>" 2]
  show ?thesis by blast
qed

subsection \<open>C9: the flag is set only together with the declaration\<close>

text \<open>
  C9. Under a compiler other than the targeted one (\<^verbatim>\<open>_MSC_VER\<close> not defined) an
  inclusion of the header never sets \<^verbatim>\<open>_MODE_T_DEFINED\<close>: the flag is defined after the
  inclusion exactly if it was before. And under any compiler, an inclusion that sets the flag
  is one that has declared \<^verbatim>\<open>mode_t\<close>, so the flag never announces an alias that is not
  there.
\<close>

theorem flag_set_only_with_declaration:
  "(\<not> pp_defined MSC_VER s \<longrightarrow>
      pp_defined MODE_T_DEFINED (git2_systest_win32_h s) = pp_defined MODE_T_DEFINED s)
   \<and> (\<not> pp_defined MODE_T_DEFINED s \<and> pp_defined MODE_T_DEFINED (git2_systest_win32_h s) \<longrightarrow>
      decls (git2_systest_win32_h s) = decls s @ [(mode_t, Unsigned_Short)])"
  by (auto simp add: header_decls [of s] header_declarations_made header_macros [of s]
      header_flags_set pp_defined_def macro_names_distinct split: if_splits)

text \<open>
  The witness: a unit of another compiler with nothing defined, where the flag stays unset,
  and \<open>msvc_tu\<close>, where the flag is set and the declaration is made with it.
\<close>

theorem flag_set_only_with_declaration_witness:
  "\<not> pp_defined MSC_VER \<lparr>macros = {}, decls = []\<rparr>
   \<and> \<not> pp_defined MODE_T_DEFINED \<lparr>macros = {}, decls = []\<rparr>
   \<and> \<not> pp_defined MODE_T_DEFINED (git2_systest_win32_h \<lparr>macros = {}, decls = []\<rparr>)
   \<and> \<not> pp_defined MODE_T_DEFINED msvc_tu
   \<and> pp_defined MODE_T_DEFINED (git2_systest_win32_h msvc_tu)
   \<and> decls (git2_systest_win32_h msvc_tu) = decls msvc_tu @ [(mode_t, Unsigned_Short)]"
proof -
  have other: "\<not> pp_defined MSC_VER \<lparr>macros = {}, decls = []\<rparr>"
    and unset: "\<not> pp_defined MODE_T_DEFINED \<lparr>macros = {}, decls = []\<rparr>"
    by (simp_all add: pp_defined_def)
  have set: "pp_defined MODE_T_DEFINED (git2_systest_win32_h msvc_tu)"
    by (simp add: header_declares msvc_tu_conditions) (simp add: pp_defined_def)
  from other unset set msvc_tu_conditions(2)
    flag_set_only_with_declaration [of "\<lparr>macros = {}, decls = []\<rparr>"]
    flag_set_only_with_declaration [of msvc_tu]
  show ?thesis by blast
qed

subsection \<open>C10: the include guard comes first\<close>

text \<open>
  C10. If \<^verbatim>\<open>GIT2_SYS_TEST_WIN32_COMPAT_H\<close> is already defined when the header is
  included, be it the first textual inclusion and the macro defined from outside, the
  inclusion contributes nothing: the state of the translation unit is unchanged, so no
  declaration is made and no macro is set, \<^verbatim>\<open>_MODE_T_DEFINED\<close> included, even under the
  targeted compiler with the feature flag unset.
\<close>

theorem include_guard_takes_precedence:
  assumes "pp_defined GIT2_SYS_TEST_WIN32_COMPAT_H s"
  shows "git2_systest_win32_h s = s
    \<and> declarations_made s (git2_systest_win32_h s) = []
    \<and> flags_set s (git2_systest_win32_h s) = {}
    \<and> pp_defined MODE_T_DEFINED (git2_systest_win32_h s) = pp_defined MODE_T_DEFINED s"
  using assms by (simp add: header_guard_closed declarations_made_def flags_set_def)

theorem include_guard_takes_precedence_witness:
  "pp_defined GIT2_SYS_TEST_WIN32_COMPAT_H msvc_tu_guard_predefined
   \<and> pp_defined MSC_VER msvc_tu_guard_predefined
   \<and> \<not> pp_defined MODE_T_DEFINED msvc_tu_guard_predefined
   \<and> git2_systest_win32_h msvc_tu_guard_predefined = msvc_tu_guard_predefined
   \<and> declarations_made msvc_tu_guard_predefined
       (git2_systest_win32_h msvc_tu_guard_predefined) = []
   \<and> flags_set msvc_tu_guard_predefined (git2_systest_win32_h msvc_tu_guard_predefined) = {}
   \<and> \<not> pp_defined MODE_T_DEFINED (git2_systest_win32_h msvc_tu_guard_predefined)"
  using msvc_tu_guard_predefined_conditions
    include_guard_takes_precedence [OF msvc_tu_guard_predefined_conditions(3)]
  by blast

end
